theory Spec2Isabelle
  imports Main
begin

section \<open>Layered INI configuration lookup (configloader.py)\<close>

text \<open>
  The module defines one class, \<open>INIConfigLoader\<close>, and one exception, \<open>ConfigError\<close>.
  The class looks a value (or a whole section) up in two INI files of a directory: the
  custom file \<open>name.ini\<close> and the default file \<open>name.default.ini\<close>.

  The embedding keeps the source's structure, one definition per method, with the
  loader object passed explicitly and returned updated (the only mutation is the
  parser cache \<open>__parsers\<close>). Exceptions are values: a method returns
  \<open>Inl error\<close> where the source raises and \<open>Inr value\<close> where it returns.
\<close>

subsection \<open>Exceptions\<close>

text \<open>
  The exceptions of the standard library, raised by \<open>configparser\<close>:
  \<open>NoOptionError\<close> and \<open>NoSectionError\<close> are the two that
  \<open>_find_ini_value\<close> catches; \<open>OtherError\<close> stands for every other one (a file
  that does not parse, a value whose interpolation fails, a \<open>KeyError\<close>).
\<close>

datatype library_error =
    NoOptionError
  | NoSectionError
  | OtherError string

text \<open>
  What a method of the class can raise: \<open>AssertionError\<close> and \<open>IndexError\<close>
  come from the constructor's \<open>assert(configs_path[-1] != os.path.sep)\<close>;
  \<open>ConfigError\<close> is the module's own exception and carries the message the source
  formats; \<open>Uncaught\<close> is an exception of the library that passes through.
\<close>

datatype error =
    AssertionError
  | IndexError
  | ConfigError string
  | Uncaught library_error

subsection \<open>The standard library, as parameters\<close>

text \<open>
  \<open>configparser.ConfigParser\<close> and \<open>os.path\<close> are not code of the module. A
  parser that has read a file is represented by the three operations the module calls
  on it: \<open>parser.get(section, key)\<close>, \<open>parser.has_section(section)\<close> and
  \<open>parser[section].items()\<close>. The operating system is represented by
  \<open>os.path.sep\<close> (one character on every platform), \<open>os.path.isfile\<close> and the
  outcome of \<open>ConfigParser().read(path, encoding="utf-8")\<close> for each path.
\<close>

record ConfigParser =
  parser_get :: "string \<Rightarrow> string \<Rightarrow> library_error + string"
  has_section :: "string \<Rightarrow> bool"
  section_items :: "string \<Rightarrow> library_error + (string \<times> string) list"

record os =
  path_sep :: char
  isfile :: "string \<Rightarrow> bool"
  parser_read :: "string \<Rightarrow> library_error + ConfigParser"

subsection \<open>Python values\<close>

text \<open>
  \<open>if x:\<close> on a value that is \<open>None\<close> or a string: \<open>None\<close> and the empty
  string are false. \<open>truthy x = Some s\<close> says that \<open>x\<close> is true and is the string \<open>s\<close>.
\<close>

definition truthy :: "string option \<Rightarrow> string option" where
  "truthy x = (case x of None \<Rightarrow> None | Some s \<Rightarrow> if s = [] then None else Some s)"

text \<open>
  A \<open>dict\<close> of strings, in insertion order. \<open>d[k] = v\<close> replaces the value of a key
  that is present, in place, and appends a new key; \<open>d.update(other)\<close> and
  \<open>dict(items)\<close> store the pairs one after the other.
\<close>

type_synonym dict = "(string \<times> string) list"

fun dict_setitem :: "string \<Rightarrow> string \<Rightarrow> dict \<Rightarrow> dict" where
  "dict_setitem k v [] = [(k, v)]"
| "dict_setitem k v ((k', v') # d) =
     (if k' = k then (k, v) # d else (k', v') # dict_setitem k v d)"

fun dict_update :: "dict \<Rightarrow> (string \<times> string) list \<Rightarrow> dict" where
  "dict_update d [] = d"
| "dict_update d ((k, v) # other) = dict_update (dict_setitem k v d) other"

definition dict_of :: "(string \<times> string) list \<Rightarrow> dict" where
  "dict_of items = dict_update [] items"

definition dict_get :: "dict \<Rightarrow> string \<Rightarrow> string option" where
  "dict_get d k = map_of d k"

subsection \<open>The loader object\<close>

record INIConfigLoader =
  configs_path :: string
  parsers :: "string \<rightharpoonup> ConfigParser"
  config_ext :: string
  default_ext :: string

text \<open>
  \<open>__init__\<close>. \<open>configs_path[-1]\<close> raises \<open>IndexError\<close> on the empty string; the
  assertion compares the last character with the separator. (Assertions are taken as
  enabled.) The keyword arguments default to \<open>'.ini'\<close> and \<open>'.default'\<close>.
\<close>

definition init :: "os \<Rightarrow> string \<Rightarrow> string \<Rightarrow> string \<Rightarrow> error + INIConfigLoader" where
  "init sys cpath cext dext =
     (if cpath = [] then Inl IndexError
      else if \<not> (last cpath \<noteq> path_sep sys) then Inl AssertionError
      else Inr \<lparr>configs_path = cpath, parsers = Map.empty,
                config_ext = cext, default_ext = dext\<rparr>)"

definition init_default :: "os \<Rightarrow> string \<Rightarrow> error + INIConfigLoader" where
  "init_default sys cpath = init sys cpath ''.ini'' ''.default''"

text \<open>
  \<open>_get_parser\<close>. A \<open>ConfigParser\<close> object is never false (its length counts the
  \<open>DEFAULT\<close> section), so \<open>not parser\<close> holds exactly when the path is not in the
  cache. When \<open>read\<close> raises, nothing is stored.
\<close>

definition get_parser ::
  "os \<Rightarrow> INIConfigLoader \<Rightarrow> string \<Rightarrow> (error + ConfigParser) \<times> INIConfigLoader" where
  "get_parser sys self config_path =
     (case parsers self config_path of
        Some parser \<Rightarrow> (Inr parser, self)
      | None \<Rightarrow>
          (case parser_read sys config_path of
             Inl e \<Rightarrow> (Inl (Uncaught e), self)
           | Inr parser \<Rightarrow>
               (Inr parser, self\<lparr>parsers := (parsers self)(config_path \<mapsto> parser)\<rparr>)))"

definition find_ini_custom :: "os \<Rightarrow> INIConfigLoader \<Rightarrow> string \<Rightarrow> string option" where
  "find_ini_custom sys self config_file_name =
     (let file_name_base = configs_path self @ [path_sep sys] @ config_file_name;
          custom_path = file_name_base @ config_ext self
      in if isfile sys custom_path then Some custom_path else None)"

definition find_ini_default :: "os \<Rightarrow> INIConfigLoader \<Rightarrow> string \<Rightarrow> string option" where
  "find_ini_default sys self config_file_name =
     (let file_name_base = configs_path self @ [path_sep sys] @ config_file_name;
          default_path = file_name_base @ default_ext self @ config_ext self
      in if isfile sys default_path then Some default_path else None)"

text \<open>
  \<open>_find_ini_value\<close>: the parser is fetched outside the \<open>try\<close>; inside it, the two
  caught exceptions give \<open>None\<close> and any other one propagates.
\<close>

definition find_ini_value ::
  "os \<Rightarrow> INIConfigLoader \<Rightarrow> string \<Rightarrow> string \<Rightarrow> string \<Rightarrow>
   (error + string option) \<times> INIConfigLoader" where
  "find_ini_value sys self config_path section key =
     (case get_parser sys self config_path of
        (Inl e, self') \<Rightarrow> (Inl e, self')
      | (Inr parser, self') \<Rightarrow>
          (case parser_get parser section key of
             Inr v \<Rightarrow> (Inr (Some v), self')
           | Inl NoOptionError \<Rightarrow> (Inr None, self')
           | Inl NoSectionError \<Rightarrow> (Inr None, self')
           | Inl (OtherError x) \<Rightarrow> (Inl (Uncaught (OtherError x)), self')))"

definition get_ini_section ::
  "os \<Rightarrow> INIConfigLoader \<Rightarrow> string \<Rightarrow> string \<Rightarrow> (error + dict) \<times> INIConfigLoader" where
  "get_ini_section sys self config_path section =
     (case get_parser sys self config_path of
        (Inl e, self') \<Rightarrow> (Inl e, self')
      | (Inr parser, self') \<Rightarrow>
          (if has_section parser section then
             (case section_items parser section of
                Inl e \<Rightarrow> (Inl (Uncaught e), self')
              | Inr items \<Rightarrow> (Inr (dict_of items), self'))
           else (Inr (dict_of []), self')))"

subsection \<open>The messages of \<open>ConfigError\<close>\<close>

definition missing_default_config :: "string \<Rightarrow> error" where
  \<open>missing_default_config config_file_name =
     ConfigError (''Default ini configuration file "'' @ config_file_name @ ''" not found!'')\<close>

definition missing_key :: "string \<Rightarrow> string \<Rightarrow> string \<Rightarrow> error" where
  \<open>missing_key config_file_name section key =
     ConfigError (''Value for key "'' @ key @ ''" in section "'' @ section
                  @ ''" not found in ini configuration "'' @ config_file_name @ ''"!'')\<close>

definition missing_section :: "string \<Rightarrow> string \<Rightarrow> error" where
  \<open>missing_section config_file_name section =
     ConfigError (''Section "'' @ section @ ''" not found in ini configuration "''
                  @ config_file_name @ ''"!'')\<close>

subsection \<open>The two public methods\<close>

text \<open>
  \<open>get_value\<close>. The three \<open>isinstance\<close> assertions hold by typing. The first
  \<open>case\<close> is the \<open>if custom_conf: ... elif default_conf: ... else: ...\<close> that
  computes \<open>value\<close>; the second is the final \<open>if not value:\<close>.
\<close>

definition get_value ::
  "os \<Rightarrow> INIConfigLoader \<Rightarrow> string \<Rightarrow> string \<Rightarrow> string \<Rightarrow>
   (error + string) \<times> INIConfigLoader" where
  "get_value sys self config_file_name section key =
     (let default_conf = find_ini_default sys self config_file_name;
          custom_conf = find_ini_custom sys self config_file_name
      in case (case truthy custom_conf of
                 Some cpath \<Rightarrow>
                   (case find_ini_value sys self cpath section key of
                      (Inl e, self1) \<Rightarrow> (Inl e, self1)
                    | (Inr value1, self1) \<Rightarrow>
                        (case (truthy value1, truthy default_conf) of
                           (None, Some dpath) \<Rightarrow> find_ini_value sys self1 dpath section key
                         | _ \<Rightarrow> (Inr value1, self1)))
               | None \<Rightarrow>
                   (case truthy default_conf of
                      Some dpath \<Rightarrow> find_ini_value sys self dpath section key
                    | None \<Rightarrow> (Inr None, self)))
         of (Inl e, self') \<Rightarrow> (Inl e, self')
          | (Inr value2, self') \<Rightarrow>
              (case truthy value2 of
                 None \<Rightarrow>
                   (case truthy default_conf of
                      None \<Rightarrow> (Inl (missing_default_config config_file_name), self')
                    | Some _ \<Rightarrow> (Inl (missing_key config_file_name section key), self'))
               | Some v \<Rightarrow> (Inr v, self')))"

text \<open>
  \<open>get_section_values\<close>: \<open>result\<close> starts empty, takes the default file's section,
  then the custom file's section, and is returned unless it is empty.
\<close>

definition get_section_values ::
  "os \<Rightarrow> INIConfigLoader \<Rightarrow> string \<Rightarrow> string \<Rightarrow> (error + dict) \<times> INIConfigLoader" where
  "get_section_values sys self config_file_name section =
     (let default_conf = find_ini_default sys self config_file_name;
          custom_conf = find_ini_custom sys self config_file_name;
          result0 = dict_of []
      in case (case truthy default_conf of
                 Some dpath \<Rightarrow>
                   (case get_ini_section sys self dpath section of
                      (Inl e, self1) \<Rightarrow> (Inl e, self1)
                    | (Inr d, self1) \<Rightarrow> (Inr (dict_update result0 d), self1))
               | None \<Rightarrow> (Inr result0, self))
         of (Inl e, self1) \<Rightarrow> (Inl e, self1)
          | (Inr result1, self1) \<Rightarrow>
              (case (case truthy custom_conf of
                       Some cpath \<Rightarrow>
                         (case get_ini_section sys self1 cpath section of
                            (Inl e, self2) \<Rightarrow> (Inl e, self2)
                          | (Inr d, self2) \<Rightarrow> (Inr (dict_update result1 d), self2))
                     | None \<Rightarrow> (Inr result1, self1))
               of (Inl e, self2) \<Rightarrow> (Inl e, self2)
                | (Inr result2, self2) \<Rightarrow>
                    (if result2 = [] then
                       (case truthy default_conf of
                          None \<Rightarrow> (Inl (missing_default_config config_file_name), self2)
                        | Some _ \<Rightarrow> (Inl (missing_section config_file_name section), self2))
                     else (Inr result2, self2))))"

subsection \<open>Notions used to state the properties\<close>

text \<open>
  The parser the loader works with at a path: the cached one, or else what reading the
  file gives. It is the first component of \<open>_get_parser\<close>'s result.
\<close>

definition resource :: "os \<Rightarrow> INIConfigLoader \<Rightarrow> string \<Rightarrow> error + ConfigParser" where
  "resource sys self config_path = fst (get_parser sys self config_path)"

text \<open>
  Two states of a loader that no method can tell apart: the same directory and
  extensions, and the same parser (or the same failure to read) at every path.
\<close>

definition same_resources :: "os \<Rightarrow> INIConfigLoader \<Rightarrow> INIConfigLoader \<Rightarrow> bool" where
  "same_resources sys a b \<longleftrightarrow>
     configs_path b = configs_path a \<and> config_ext b = config_ext a \<and>
     default_ext b = default_ext a \<and> (\<forall>p. resource sys b p = resource sys a p)"

text \<open>
  The end of \<open>get_value\<close>, from \<open>if not value:\<close> on, as a function of the
  located default file and of \<open>value\<close>.
\<close>

definition finish ::
  "string option \<Rightarrow> string \<Rightarrow> string \<Rightarrow> string \<Rightarrow> string option \<Rightarrow> error + string" where
  "finish default_conf n s k v =
     (case truthy v of
        None \<Rightarrow> (case default_conf of None \<Rightarrow> Inl (missing_default_config n)
                   | Some _ \<Rightarrow> Inl (missing_key n s k))
      | Some w \<Rightarrow> Inr w)"

text \<open>
  A sequence of calls of the two public methods on one loader, against one unchanged
  file system: \<open>perform\<close> makes one call, \<open>perform_all\<close> makes the calls of a list in
  order and gives the loader they leave.
\<close>

datatype call = GetValue string string string | GetSectionValues string string

datatype answer = Value string | Section dict

fun perform :: "os \<Rightarrow> INIConfigLoader \<Rightarrow> call \<Rightarrow> (error + answer) \<times> INIConfigLoader" where
  "perform sys self (GetValue n s k) =
     (case get_value sys self n s k of
        (Inl e, self') \<Rightarrow> (Inl e, self')
      | (Inr v, self') \<Rightarrow> (Inr (Value v), self'))"
| "perform sys self (GetSectionValues n s) =
     (case get_section_values sys self n s of
        (Inl e, self') \<Rightarrow> (Inl e, self')
      | (Inr d, self') \<Rightarrow> (Inr (Section d), self'))"

fun perform_all :: "os \<Rightarrow> INIConfigLoader \<Rightarrow> call list \<Rightarrow> INIConfigLoader" where
  "perform_all sys self [] = self"
| "perform_all sys self (c # cs) = perform_all sys (snd (perform sys self c)) cs"

subsection \<open>Example files\<close>

text \<open>
  The parser of an INI file that has the given sections, with lower-case keys, no
  \<open>DEFAULT\<close> section and no \<open>%\<close> in a value: \<open>get\<close> raises \<open>NoSectionError\<close>
  and \<open>NoOptionError\<close> as the library does, and \<open>parser[section]\<close> raises
  \<open>KeyError\<close> for a section that is not there.
\<close>

definition ini :: "(string \<times> (string \<times> string) list) list \<Rightarrow> ConfigParser" where
  "ini sections =
     \<lparr>parser_get = (\<lambda>section key.
        case map_of sections section of
          None \<Rightarrow> Inl NoSectionError
        | Some kvs \<Rightarrow> (case map_of kvs key of None \<Rightarrow> Inl NoOptionError | Some v \<Rightarrow> Inr v)),
      has_section = (\<lambda>section. map_of sections section \<noteq> None),
      section_items = (\<lambda>section.
        case map_of sections section of
          None \<Rightarrow> Inl (OtherError ''KeyError'')
        | Some kvs \<Rightarrow> Inr kvs)\<rparr>"

text \<open>
  A POSIX system with the listed files. \<open>read\<close> of a path that cannot be opened
  leaves the parser empty.
\<close>

definition posix :: "(string \<times> (library_error + ConfigParser)) list \<Rightarrow> os" where
  "posix files =
     \<lparr>path_sep = CHR ''/'',
      isfile = (\<lambda>p. map_of files p \<noteq> None),
      parser_read = (\<lambda>p. case map_of files p of Some r \<Rightarrow> r | None \<Rightarrow> Inr (ini []))\<rparr>"

text \<open>\<open>INIConfigLoader('conf')\<close>, before any call.\<close>

definition conf_loader :: INIConfigLoader where
  "conf_loader = \<lparr>configs_path = ''conf'', parsers = Map.empty,
                   config_ext = ''.ini'', default_ext = ''.default''\<rparr>"

text \<open>
  \<open>app.default.ini\<close> is \<open>[server] host=localhost port=8080\<close> and \<open>app.ini\<close> is
  \<open>[server] port=\<close>.
\<close>

definition sys_empty_override :: os where
  "sys_empty_override = posix
     [(''conf/app.default.ini'',
         Inr (ini [(''server'', [(''host'', ''localhost''), (''port'', ''8080'')])])),
      (''conf/app.ini'', Inr (ini [(''server'', [(''port'', [])])]))]"

text \<open>The same default file, and \<open>app.ini\<close> is \<open>[server] port=9090\<close>.\<close>

definition sys_override :: os where
  "sys_override = posix
     [(''conf/app.default.ini'',
         Inr (ini [(''server'', [(''host'', ''localhost''), (''port'', ''8080'')])])),
      (''conf/app.ini'', Inr (ini [(''server'', [(''port'', ''9090'')])]))]"

text \<open>Only \<open>app.ini\<close>, which is \<open>[server] port=9090\<close>; no default file.\<close>

definition sys_custom_only :: os where
  "sys_custom_only = posix
     [(''conf/app.ini'', Inr (ini [(''server'', [(''port'', ''9090'')])]))]"

text \<open>Only \<open>app.default.ini\<close>, which is \<open>[server] host=localhost port=8080\<close>.\<close>

definition sys_default_only :: os where
  "sys_default_only = posix
     [(''conf/app.default.ini'',
         Inr (ini [(''server'', [(''host'', ''localhost''), (''port'', ''8080'')])]))]"

text \<open>Only \<open>app.default.ini\<close>, which is \<open>[server] port=\<close> and \<open>[paths]\<close>.\<close>

definition sys_default_empty :: os where
  "sys_default_empty = posix
     [(''conf/app.default.ini'',
         Inr (ini [(''server'', [(''port'', [])]), (''paths'', [])]))]"

text \<open>No file at all.\<close>

definition sys_no_files :: os where
  "sys_no_files = posix []"

section \<open>Properties\<close>

subsection \<open>Truthiness and dictionaries\<close>

lemma truthy_Some_iff: "truthy x = Some s \<longleftrightarrow> x = Some s \<and> s \<noteq> []"
  by (auto simp: truthy_def split: option.splits)

lemma truthy_None_iff: "truthy x = None \<longleftrightarrow> x = None \<or> x = Some []"
  by (auto simp: truthy_def split: option.splits)

lemma map_of_dict_setitem: "map_of (dict_setitem k v d) = (map_of d)(k \<mapsto> v)"
  by (induction d) auto

lemma keys_dict_setitem:
  "map fst (dict_setitem k v d) = (if k \<in> fst ` set d then map fst d else map fst d @ [k])"
  by (induction d) force+

lemma dict_setitem_fresh: "k \<notin> fst ` set d \<Longrightarrow> dict_setitem k v d = d @ [(k, v)]"
  by (induction d) auto

lemma distinct_dict_setitem: "distinct (map fst d) \<Longrightarrow> distinct (map fst (dict_setitem k v d))"
  by (simp add: keys_dict_setitem)

lemma distinct_dict_update: "distinct (map fst d) \<Longrightarrow> distinct (map fst (dict_update d other))"
  by (induction d other rule: dict_update.induct) (simp_all add: distinct_dict_setitem)

lemma distinct_dict_of: "distinct (map fst (dict_of items))"
  by (simp add: dict_of_def distinct_dict_update)

lemma dict_update_append:
  "distinct (map fst (d @ other)) \<Longrightarrow> dict_update d other = d @ other"
proof (induction other arbitrary: d)
  case Nil
  then show ?case by simp
next
  case (Cons kv other)
  obtain k v where kv: "kv = (k, v)" by (cases kv)
  from Cons.prems kv have fresh: "k \<notin> fst ` set d" by auto
  from Cons.prems kv have "distinct (map fst ((d @ [(k, v)]) @ other))" by auto
  then have "dict_update (d @ [(k, v)]) other = (d @ [(k, v)]) @ other"
    by (rule Cons.IH)
  with fresh kv show ?case by (simp add: dict_setitem_fresh)
qed

lemma dict_update_empty: "distinct (map fst d) \<Longrightarrow> dict_update [] d = d"
  using dict_update_append [of "[]" d] by simp

lemma dict_setitem_not_empty: "dict_setitem k v d \<noteq> []"
  by (induction d) (auto split: if_splits)

lemma dict_update_not_empty: "d \<noteq> [] \<Longrightarrow> dict_update d other \<noteq> []"
  by (induction d other rule: dict_update.induct) (simp_all add: dict_setitem_not_empty)

lemma dict_update_eq_Nil: "dict_update d other = [] \<longleftrightarrow> d = [] \<and> other = []"
proof (cases other)
  case Nil
  then show ?thesis by simp
next
  case (Cons kv rest)
  obtain k v where "kv = (k, v)" by (cases kv)
  with Cons show ?thesis
    using dict_update_not_empty [of "dict_setitem k v d" rest]
    by (simp add: dict_setitem_not_empty)
qed

lemma map_of_dict_update:
  "distinct (map fst other) \<Longrightarrow> map_of (dict_update d other) = map_of d ++ map_of other"
proof (induction d other rule: dict_update.induct)
  case (1 d)
  then show ?case by simp
next
  case (2 d k v other)
  then have "k \<notin> dom (map_of other)"
    by (auto simp: dom_map_of_conv_image_fst)
  with 2 show ?case
    by (auto simp: map_of_dict_setitem map_add_def fun_eq_iff split: option.splits)
qed

lemma dict_get_dict_update:
  "distinct (map fst other) \<Longrightarrow>
   dict_get (dict_update d other) k =
     (case dict_get other k of Some v \<Rightarrow> Some v | None \<Rightarrow> dict_get d k)"
  by (simp add: dict_get_def map_of_dict_update map_add_def split: option.splits)

subsection \<open>The cache does not change what a path resolves to\<close>

lemma same_resources_refl: "same_resources sys a a"
  by (simp add: same_resources_def)

lemma same_resources_trans:
  "same_resources sys a b \<Longrightarrow> same_resources sys b c \<Longrightarrow> same_resources sys a c"
  by (simp add: same_resources_def)

lemma get_parser_same: "same_resources sys self (snd (get_parser sys self p))"
  by (auto simp: same_resources_def resource_def get_parser_def split: option.splits sum.splits)

lemma get_parser_cached:
  "get_parser sys self p = (Inr parser, self') \<Longrightarrow> parsers self' p = Some parser"
  by (auto simp: get_parser_def split: option.splits sum.splits)

lemma get_parser_reuse:
  "parsers self p = Some parser \<Longrightarrow> get_parser sys' self p = (Inr parser, self)"
  by (simp add: get_parser_def)

lemma resource_fresh: "parsers self = Map.empty \<Longrightarrow> resource sys self p =
    (case parser_read sys p of Inl e \<Rightarrow> Inl (Uncaught e) | Inr parser \<Rightarrow> Inr parser)"
  by (simp add: resource_def get_parser_def split: sum.splits)

lemma find_ini_value_fst:
  "fst (find_ini_value sys self p s k) =
     (case resource sys self p of
        Inl e \<Rightarrow> Inl e
      | Inr parser \<Rightarrow>
          (case parser_get parser s k of
             Inr v \<Rightarrow> Inr (Some v)
           | Inl NoOptionError \<Rightarrow> Inr None
           | Inl NoSectionError \<Rightarrow> Inr None
           | Inl (OtherError x) \<Rightarrow> Inl (Uncaught (OtherError x))))"
  by (auto simp: find_ini_value_def resource_def
      split: prod.splits sum.splits library_error.splits)

lemma find_ini_value_snd: "snd (find_ini_value sys self p s k) = snd (get_parser sys self p)"
  by (auto simp: find_ini_value_def split: prod.splits sum.splits library_error.splits)

lemma find_ini_value_same: "same_resources sys self (snd (find_ini_value sys self p s k))"
  by (simp add: find_ini_value_snd get_parser_same)

lemma find_ini_value_cong:
  "same_resources sys a b \<Longrightarrow>
   fst (find_ini_value sys b p s k) = fst (find_ini_value sys a p s k)"
  by (simp add: find_ini_value_fst same_resources_def)

lemma find_ini_value_then:
  "find_ini_value sys self p s k = (r, self1) \<Longrightarrow>
   fst (find_ini_value sys self1 q s' k') = fst (find_ini_value sys self q s' k')"
  using find_ini_value_same [of sys self p s k] find_ini_value_cong [of sys self self1 q s' k']
  by simp

lemma get_ini_section_fst:
  "fst (get_ini_section sys self p s) =
     (case resource sys self p of
        Inl e \<Rightarrow> Inl e
      | Inr parser \<Rightarrow>
          (if has_section parser s then
             (case section_items parser s of
                Inl e \<Rightarrow> Inl (Uncaught e)
              | Inr items \<Rightarrow> Inr (dict_of items))
           else Inr (dict_of [])))"
  by (auto simp: get_ini_section_def resource_def split: prod.splits sum.splits)

lemma get_ini_section_snd: "snd (get_ini_section sys self p s) = snd (get_parser sys self p)"
  by (auto simp: get_ini_section_def split: prod.splits sum.splits)

lemma get_ini_section_same: "same_resources sys self (snd (get_ini_section sys self p s))"
  by (simp add: get_ini_section_snd get_parser_same)

lemma get_ini_section_cong:
  "same_resources sys a b \<Longrightarrow>
   fst (get_ini_section sys b p s) = fst (get_ini_section sys a p s)"
  by (simp add: get_ini_section_fst same_resources_def)

lemma get_ini_section_then:
  "get_ini_section sys self p s = (r, self1) \<Longrightarrow>
   fst (get_ini_section sys self1 q s') = fst (get_ini_section sys self q s')"
  using get_ini_section_same [of sys self p s] get_ini_section_cong [of sys self self1 q s']
  by simp

lemma get_ini_section_distinct:
  "fst (get_ini_section sys self p s) = Inr d \<Longrightarrow> distinct (map fst d)"
  by (auto simp: get_ini_section_fst distinct_dict_of split: sum.splits if_splits)

lemma find_ini_custom_cong:
  "same_resources sys a b \<Longrightarrow> find_ini_custom sys b n = find_ini_custom sys a n"
  by (simp add: same_resources_def find_ini_custom_def)

lemma find_ini_default_cong:
  "same_resources sys a b \<Longrightarrow> find_ini_default sys b n = find_ini_default sys a n"
  by (simp add: same_resources_def find_ini_default_def)

lemma truthy_find_ini_custom: "truthy (find_ini_custom sys self n) = find_ini_custom sys self n"
  by (simp add: truthy_def find_ini_custom_def Let_def)

lemma truthy_find_ini_default: "truthy (find_ini_default sys self n) = find_ini_default sys self n"
  by (simp add: truthy_def find_ini_default_def Let_def)

subsection \<open>The results of the two methods, in terms of the lookups\<close>

lemma get_value_fst:
  "fst (get_value sys self n s k) =
     (case find_ini_custom sys self n of
        Some cp \<Rightarrow>
          (case fst (find_ini_value sys self cp s k) of
             Inl e \<Rightarrow> Inl e
           | Inr v1 \<Rightarrow>
               (case (truthy v1, find_ini_default sys self n) of
                  (None, Some dp) \<Rightarrow>
                    (case fst (find_ini_value sys self dp s k) of
                       Inl e \<Rightarrow> Inl e
                     | Inr v2 \<Rightarrow> finish (Some dp) n s k v2)
                | (_, dconf) \<Rightarrow> finish dconf n s k v1))
      | None \<Rightarrow>
          (case find_ini_default sys self n of
             Some dp \<Rightarrow>
               (case fst (find_ini_value sys self dp s k) of
                  Inl e \<Rightarrow> Inl e
                | Inr v2 \<Rightarrow> finish (Some dp) n s k v2)
           | None \<Rightarrow> Inl (missing_default_config n)))"
proof (cases "find_ini_custom sys self n")
  case None
  then show ?thesis
    unfolding get_value_def Let_def truthy_find_ini_custom truthy_find_ini_default finish_def
    by (simp add: truthy_def split: option.splits prod.splits sum.splits)
next
  case (Some cp)
  obtain r1 self1 where f1: "find_ini_value sys self cp s k = (r1, self1)"
    by (cases "find_ini_value sys self cp s k")
  show ?thesis
  proof (cases r1)
    case (Inl e)
    with Some f1 show ?thesis
      unfolding get_value_def Let_def truthy_find_ini_custom truthy_find_ini_default
      by simp
  next
    case (Inr v1)
    show ?thesis
    proof (cases "truthy v1 = None \<and> find_ini_default sys self n \<noteq> None")
      case True
      then obtain dp where d: "find_ini_default sys self n = Some dp" by auto
      obtain r2 self2 where f2: "find_ini_value sys self1 dp s k = (r2, self2)"
        by (cases "find_ini_value sys self1 dp s k")
      have "fst (find_ini_value sys self dp s k) = r2"
        using find_ini_value_then [OF f1, of dp s k] f2 by simp
      with Some f1 Inr True d f2 show ?thesis
        unfolding get_value_def Let_def truthy_find_ini_custom truthy_find_ini_default
          finish_def
        by (simp split: sum.splits option.splits)
    next
      case False
      with Some f1 Inr show ?thesis
        unfolding get_value_def Let_def truthy_find_ini_custom truthy_find_ini_default
          finish_def
        by (auto split: option.splits)
    qed
  qed
qed

lemma find_ini_value_sameD:
  "find_ini_value sys a p s k = (r, b) \<Longrightarrow> same_resources sys a b"
  using find_ini_value_same [of sys a p s k] by simp

lemma get_value_same: "same_resources sys self (snd (get_value sys self n s k))"
proof (cases "find_ini_custom sys self n")
  case None
  show ?thesis
  proof (cases "find_ini_default sys self n")
    case dNone: None
    with None show ?thesis
      unfolding get_value_def Let_def truthy_find_ini_custom truthy_find_ini_default
      by (simp add: same_resources_refl truthy_def)
  next
    case (Some dp)
    obtain r self1 where f: "find_ini_value sys self dp s k = (r, self1)"
      by (cases "find_ini_value sys self dp s k")
    from f have "same_resources sys self self1" by (rule find_ini_value_sameD)
    with None Some f show ?thesis
      unfolding get_value_def Let_def truthy_find_ini_custom truthy_find_ini_default
      by (simp split: sum.splits option.splits)
  qed
next
  case (Some cp)
  obtain r1 self1 where f1: "find_ini_value sys self cp s k = (r1, self1)"
    by (cases "find_ini_value sys self cp s k")
  from f1 have s1: "same_resources sys self self1" by (rule find_ini_value_sameD)
  show ?thesis
  proof (cases r1)
    case (Inl e)
    with Some f1 s1 show ?thesis
      unfolding get_value_def Let_def truthy_find_ini_custom truthy_find_ini_default
      by simp
  next
    case (Inr v1)
    show ?thesis
    proof (cases "truthy v1 = None \<and> find_ini_default sys self n \<noteq> None")
      case True
      then obtain dp where d: "find_ini_default sys self n = Some dp" by auto
      obtain r2 self2 where f2: "find_ini_value sys self1 dp s k = (r2, self2)"
        by (cases "find_ini_value sys self1 dp s k")
      from f2 have "same_resources sys self1 self2" by (rule find_ini_value_sameD)
      with s1 have "same_resources sys self self2" by (rule same_resources_trans)
      with Some f1 Inr True d f2 show ?thesis
        unfolding get_value_def Let_def truthy_find_ini_custom truthy_find_ini_default
        by (simp split: sum.splits option.splits)
    next
      case False
      with Some f1 Inr s1 show ?thesis
        unfolding get_value_def Let_def truthy_find_ini_custom truthy_find_ini_default
        by (auto split: option.splits)
    qed
  qed
qed

lemma get_value_cong:
  assumes "same_resources sys a b"
  shows "fst (get_value sys b n s k) = fst (get_value sys a n s k)"
  unfolding get_value_fst find_ini_custom_cong [OF assms] find_ini_default_cong [OF assms]
    find_ini_value_cong [OF assms]
  by (rule refl)

lemma get_ini_section_sameD:
  "get_ini_section sys a p s = (r, b) \<Longrightarrow> same_resources sys a b"
  using get_ini_section_same [of sys a p s] by simp

text \<open>The three steps of \<open>get_section_values\<close>, on results instead of states.\<close>

lemma get_section_values_fst:
  "fst (get_section_values sys self n s) =
     (case (case find_ini_default sys self n of
              Some dp \<Rightarrow>
                (case fst (get_ini_section sys self dp s) of
                   Inl e \<Rightarrow> Inl e
                 | Inr d \<Rightarrow> Inr (dict_update [] d))
            | None \<Rightarrow> Inr [])
      of Inl e \<Rightarrow> Inl e
       | Inr result1 \<Rightarrow>
           (case (case find_ini_custom sys self n of
                    Some cp \<Rightarrow>
                      (case fst (get_ini_section sys self cp s) of
                         Inl e \<Rightarrow> Inl e
                       | Inr d \<Rightarrow> Inr (dict_update result1 d))
                  | None \<Rightarrow> Inr result1)
            of Inl e \<Rightarrow> Inl e
             | Inr result2 \<Rightarrow>
                 (if result2 = [] then
                    (case find_ini_default sys self n of
                       None \<Rightarrow> Inl (missing_default_config n)
                     | Some _ \<Rightarrow> Inl (missing_section n s))
                  else Inr result2)))"
proof (cases "find_ini_default sys self n")
  case None
  then show ?thesis
    unfolding get_section_values_def Let_def truthy_find_ini_custom truthy_find_ini_default
    by (simp add: dict_of_def split: option.splits prod.splits sum.splits)
next
  case (Some dp)
  obtain r1 self1 where f1: "get_ini_section sys self dp s = (r1, self1)"
    by (cases "get_ini_section sys self dp s")
  show ?thesis
  proof (cases r1)
    case (Inl e)
    with Some f1 show ?thesis
      unfolding get_section_values_def Let_def truthy_find_ini_custom truthy_find_ini_default
      by simp
  next
    case (Inr d1)
    show ?thesis
    proof (cases "find_ini_custom sys self n")
      case None
      with Some f1 Inr show ?thesis
        unfolding get_section_values_def Let_def truthy_find_ini_custom
          truthy_find_ini_default
        by (simp add: dict_of_def)
    next
      case cSome: (Some cp)
      obtain r2 self2 where f2: "get_ini_section sys self1 cp s = (r2, self2)"
        by (cases "get_ini_section sys self1 cp s")
      have "fst (get_ini_section sys self cp s) = r2"
        using get_ini_section_then [OF f1, of cp s] f2 by simp
      with Some f1 Inr cSome f2 show ?thesis
        unfolding get_section_values_def Let_def truthy_find_ini_custom
          truthy_find_ini_default
        by (simp add: dict_of_def split: sum.splits)
    qed
  qed
qed

lemma get_section_values_same:
  "same_resources sys self (snd (get_section_values sys self n s))"
proof -
  obtain r1 self1 where f1:
    "(case find_ini_default sys self n of
        Some dp \<Rightarrow> get_ini_section sys self dp s
      | None \<Rightarrow> (Inr [], self)) = (r1, self1)"
    by (cases "case find_ini_default sys self n of
        Some dp \<Rightarrow> get_ini_section sys self dp s
      | None \<Rightarrow> (Inr [], self)")
  then have s1: "same_resources sys self self1"
    by (auto split: option.splits dest: get_ini_section_sameD simp: same_resources_refl)
  obtain r2 self2 where f2:
    "(case find_ini_custom sys self n of
        Some cp \<Rightarrow> get_ini_section sys self1 cp s
      | None \<Rightarrow> (Inr [], self1)) = (r2, self2)"
    by (cases "case find_ini_custom sys self n of
        Some cp \<Rightarrow> get_ini_section sys self1 cp s
      | None \<Rightarrow> (Inr [], self1)")
  then have "same_resources sys self1 self2"
    by (auto split: option.splits dest: get_ini_section_sameD simp: same_resources_refl)
  with s1 have s2: "same_resources sys self self2" by (rule same_resources_trans)
  have "snd (get_section_values sys self n s) = self1 \<or>
        snd (get_section_values sys self n s) = self2"
    using f1 f2
    unfolding get_section_values_def Let_def truthy_find_ini_custom truthy_find_ini_default
    by (auto simp: dict_of_def split: option.splits sum.splits prod.splits)
  with s1 s2 show ?thesis by auto
qed

lemma get_section_values_cong:
  assumes "same_resources sys a b"
  shows "fst (get_section_values sys b n s) = fst (get_section_values sys a n s)"
  unfolding get_section_values_fst find_ini_custom_cong [OF assms]
    find_ini_default_cong [OF assms] get_ini_section_cong [OF assms]
  by (rule refl)

lemma perform_same: "same_resources sys self (snd (perform sys self c))"
proof (cases c)
  case (GetValue n s k)
  then show ?thesis
    using get_value_same [of sys self n s k]
    by (auto split: prod.splits sum.splits)
next
  case (GetSectionValues n s)
  then show ?thesis
    using get_section_values_same [of sys self n s]
    by (auto split: prod.splits sum.splits)
qed

lemma perform_cong:
  assumes "same_resources sys a b"
  shows "fst (perform sys b c) = fst (perform sys a c)"
proof (cases c)
  case (GetValue n s k)
  then show ?thesis
    using get_value_cong [OF assms, of n s k]
    by (auto split: prod.splits sum.splits)
next
  case (GetSectionValues n s)
  then show ?thesis
    using get_section_values_cong [OF assms, of n s]
    by (auto split: prod.splits sum.splits)
qed

lemma perform_all_same: "same_resources sys self (perform_all sys self cs)"
proof (induction cs arbitrary: self)
  case Nil
  show ?case by (simp add: same_resources_refl)
next
  case (Cons c cs)
  have "same_resources sys self (snd (perform sys self c))" by (rule perform_same)
  moreover have "same_resources sys (snd (perform sys self c))
      (perform_all sys (snd (perform sys self c)) cs)"
    by (rule Cons.IH)
  ultimately show ?case by (simp add: same_resources_trans)
qed

subsection \<open>Errors and messages\<close>

lemma find_ini_value_error:
  "fst (find_ini_value sys self p s k) = Inl e \<Longrightarrow> \<exists>x. e = Uncaught x"
  by (auto simp: find_ini_value_fst resource_def get_parser_def
      split: sum.splits option.splits library_error.splits)

lemma get_ini_section_error:
  "fst (get_ini_section sys self p s) = Inl e \<Longrightarrow> \<exists>x. e = Uncaught x"
  by (auto simp: get_ini_section_fst resource_def get_parser_def
      split: sum.splits option.splits if_splits)

lemma missing_key_neq_missing_default: "missing_key n s k \<noteq> missing_default_config n'"
  by (simp add: missing_key_def missing_default_config_def)

lemma missing_section_neq_missing_default: "missing_section n s \<noteq> missing_default_config n'"
  by (simp add: missing_section_def missing_default_config_def)

lemma finish_eq_Inr: "finish dc n s k x = Inr v \<longleftrightarrow> truthy x = Some v"
  by (auto simp: finish_def split: option.splits)

lemma finish_Some_eq_missing_key:
  "finish (Some dp) n s k x = Inl (missing_key n s k) \<longleftrightarrow> truthy x = None"
  by (auto simp: finish_def split: option.splits)

lemma finish_Some_neq_missing_default:
  "finish (Some dp) n s k x \<noteq> Inl (missing_default_config n)"
  by (auto simp: finish_def missing_key_neq_missing_default split: option.splits)

lemmas example_defs = posix_def ini_def conf_loader_def
  find_ini_default_def find_ini_custom_def find_ini_value_def get_ini_section_def
  get_parser_def resource_def truthy_def dict_of_def Let_def

lemmas method_defs = get_value_def get_section_values_def
  missing_default_config_def missing_key_def missing_section_def

subsection \<open>The constructor\<close>

lemma init_non_empty:
  "cpath \<noteq> [] \<Longrightarrow> init sys cpath cext dext =
     (if last cpath = path_sep sys then Inl AssertionError
      else Inr \<lparr>configs_path = cpath, parsers = Map.empty,
                config_ext = cext, default_ext = dext\<rparr>)"
  by (simp add: init_def)

lemma init_default_conf: "init_default (posix files) ''conf'' = Inr conf_loader"
  by (simp add: init_default_def init_def posix_def conf_loader_def)

text \<open>
  C9. Claimed: construction fails an assertion for every \<open>configs_path\<close> that ends
  with the separator and succeeds for every \<open>configs_path\<close> that does not. The empty
  string does not end with the separator, and \<open>INIConfigLoader('')\<close> raises
  \<open>IndexError\<close>, from \<open>configs_path[-1]\<close>, before the comparison is made.
\<close>

theorem init_empty_path_index_error: "init sys [] cext dext = Inl IndexError"
  by (simp add: init_def)

subsection \<open>The locator\<close>

text \<open>
  C8. For every name \<open>n\<close>, \<open>_find_ini_custom\<close> builds
  \<open>configs_path + sep + n + config_ext\<close> and \<open>_find_ini_default\<close> builds
  \<open>configs_path + sep + n + default_ext + config_ext\<close>; each returns its path when
  \<open>isfile\<close> holds of it and \<open>None\<close>, never an error, when not. For a loader
  constructed with the default extensions the two paths end in \<open>n.ini\<close> and
  \<open>n.default.ini\<close>.
\<close>

theorem locator_paths:
  "find_ini_custom sys self n =
     (if isfile sys (configs_path self @ [path_sep sys] @ n @ config_ext self)
      then Some (configs_path self @ [path_sep sys] @ n @ config_ext self) else None) \<and>
   find_ini_default sys self n =
     (if isfile sys (configs_path self @ [path_sep sys] @ n @ default_ext self @ config_ext self)
      then Some (configs_path self @ [path_sep sys] @ n @ default_ext self @ config_ext self)
      else None) \<and>
   (init_default sys base = Inr self \<longrightarrow>
      find_ini_custom sys self n =
        (if isfile sys (base @ [path_sep sys] @ n @ ''.ini'')
         then Some (base @ [path_sep sys] @ n @ ''.ini'') else None) \<and>
      find_ini_default sys self n =
        (if isfile sys (base @ [path_sep sys] @ n @ ''.default.ini'')
         then Some (base @ [path_sep sys] @ n @ ''.default.ini'') else None))"
  by (auto simp: find_ini_custom_def find_ini_default_def Let_def init_default_def init_def
      split: if_splits)

theorem locator_paths_witness:
  "init_default sys_default_only ''conf'' = Inr conf_loader \<and>
   find_ini_custom sys_default_only conf_loader ''app'' = None \<and>
   find_ini_default sys_default_only conf_loader ''app'' = Some ''conf/app.default.ini''"
proof -
  have i: "init_default sys_default_only ''conf'' = Inr conf_loader"
    by (simp add: sys_default_only_def init_default_conf)
  have "\<not> isfile sys_default_only ''conf/app.ini''"
    and "isfile sys_default_only ''conf/app.default.ini''"
    and "path_sep sys_default_only = CHR ''/''"
    by (simp_all add: sys_default_only_def posix_def)
  with i locator_paths [of sys_default_only conf_loader "''app''" "''conf''"]
  show ?thesis by (simp add: conf_loader_def)
qed

subsection \<open>\<open>get_value\<close>\<close>

text \<open>
  C1. When both files exist, the custom file maps \<open>(section, key)\<close> to the empty
  string and the default file maps it to a non-empty value, \<open>get_value\<close> returns
  the default file's value.
\<close>

theorem get_value_empty_custom_falls_through:
  assumes "find_ini_default sys self n = Some dp"
    and "find_ini_custom sys self n = Some cp"
    and "resource sys self cp = Inr pc" and "parser_get pc s k = Inr []"
    and "resource sys self dp = Inr pd" and "parser_get pd s k = Inr v" and "v \<noteq> []"
  shows "fst (get_value sys self n s k) = Inr v"
  using assms by (simp add: get_value_fst find_ini_value_fst finish_def truthy_def)

theorem get_value_empty_custom_falls_through_witness:
  "fst (get_value sys_empty_override conf_loader ''app'' ''server'' ''port'') = Inr ''8080''"
proof -
  let ?pd = "ini [(''server'', [(''host'', ''localhost''), (''port'', ''8080'')])]"
  let ?pc = "ini [(''server'', [(''port'', [])])]"
  have d: "find_ini_default sys_empty_override conf_loader ''app'' = Some ''conf/app.default.ini''"
    by (simp add: sys_empty_override_def example_defs)
  have c: "find_ini_custom sys_empty_override conf_loader ''app'' = Some ''conf/app.ini''"
    by (simp add: sys_empty_override_def example_defs)
  have rc: "resource sys_empty_override conf_loader ''conf/app.ini'' = Inr ?pc"
    by (simp add: sys_empty_override_def example_defs)
  have gc: "parser_get ?pc ''server'' ''port'' = Inr []"
    by (simp add: ini_def)
  have rd: "resource sys_empty_override conf_loader ''conf/app.default.ini'' = Inr ?pd"
    by (simp add: sys_empty_override_def example_defs)
  have gd: "parser_get ?pd ''server'' ''port'' = Inr ''8080''"
    by (simp add: ini_def)
  have ne: "''8080'' \<noteq> []" by simp
  show ?thesis
    by (rule get_value_empty_custom_falls_through [OF d c rc gc rd gd ne])
qed

text \<open>
  C4. When both files exist and both map \<open>(section, key)\<close> to non-empty values,
  \<open>get_value\<close> returns the custom file's value. The default file's value is not the
  result (unless the two values are the same string), and the default file is not
  consulted: the loader is left as \<open>_get_parser\<close> on the custom path leaves it.
\<close>

theorem get_value_custom_wins:
  assumes "find_ini_default sys self n = Some dp"
    and "find_ini_custom sys self n = Some cp"
    and "resource sys self cp = Inr pc" and "parser_get pc s k = Inr vc" and "vc \<noteq> []"
    and "resource sys self dp = Inr pd" and "parser_get pd s k = Inr vd" and "vd \<noteq> []"
  shows "fst (get_value sys self n s k) = Inr vc \<and>
         (vd \<noteq> vc \<longrightarrow> fst (get_value sys self n s k) \<noteq> Inr vd) \<and>
         snd (get_value sys self n s k) = snd (get_parser sys self cp)"
proof -
  obtain r self1 where g: "get_parser sys self cp = (r, self1)"
    by (cases "get_parser sys self cp")
  with assms(3) have "r = Inr pc" by (simp add: resource_def)
  with g assms have f: "find_ini_value sys self cp s k = (Inr (Some vc), self1)"
    by (simp add: find_ini_value_def)
  from assms(2,5) f g show ?thesis
    unfolding get_value_def Let_def truthy_find_ini_custom truthy_find_ini_default
    by (simp add: truthy_def)
qed

theorem get_value_custom_wins_witness:
  "fst (get_value sys_override conf_loader ''app'' ''server'' ''port'') = Inr ''9090'' \<and>
   fst (get_value sys_override conf_loader ''app'' ''server'' ''port'') \<noteq> Inr ''8080'' \<and>
   parsers (snd (get_value sys_override conf_loader ''app'' ''server'' ''port''))
     ''conf/app.default.ini'' = None"
proof -
  let ?pd = "ini [(''server'', [(''host'', ''localhost''), (''port'', ''8080'')])]"
  let ?pc = "ini [(''server'', [(''port'', ''9090'')])]"
  have d: "find_ini_default sys_override conf_loader ''app'' = Some ''conf/app.default.ini''"
    by (simp add: sys_override_def example_defs)
  have c: "find_ini_custom sys_override conf_loader ''app'' = Some ''conf/app.ini''"
    by (simp add: sys_override_def example_defs)
  have rc: "resource sys_override conf_loader ''conf/app.ini'' = Inr ?pc"
    by (simp add: sys_override_def example_defs)
  have gc: "parser_get ?pc ''server'' ''port'' = Inr ''9090''"
    by (simp add: ini_def)
  have rd: "resource sys_override conf_loader ''conf/app.default.ini'' = Inr ?pd"
    by (simp add: sys_override_def example_defs)
  have gd: "parser_get ?pd ''server'' ''port'' = Inr ''8080''"
    by (simp add: ini_def)
  have nc: "''9090'' \<noteq> []" and nd: "''8080'' \<noteq> []" by simp_all
  have "parsers (snd (get_parser sys_override conf_loader ''conf/app.ini''))
      ''conf/app.default.ini'' = None"
    by (simp add: sys_override_def example_defs)
  with get_value_custom_wins [OF d c rc gc nc rd gd nd] show ?thesis by simp
qed

text \<open>
  C10. Whenever \<open>get_value\<close> returns, the value returned is a non-empty string.
\<close>

theorem get_value_returns_non_empty:
  assumes "fst (get_value sys self n s k) = Inr v"
  shows "v \<noteq> []"
proof -
  have "\<exists>dc x. finish dc n s k x = Inr v"
    using assms unfolding get_value_fst
    by (auto split: option.splits sum.splits prod.splits)
  then show ?thesis
    by (auto simp: finish_eq_Inr truthy_Some_iff)
qed

theorem get_value_returns_non_empty_witness:
  "fst (get_value sys_default_only conf_loader ''app'' ''server'' ''host'') = Inr ''localhost''
   \<and> ''localhost'' \<noteq> []"
proof -
  have r: "fst (get_value sys_default_only conf_loader ''app'' ''server'' ''host'')
      = Inr ''localhost''"
    by (simp add: sys_default_only_def example_defs method_defs)
  from r get_value_returns_non_empty [OF r] show ?thesis by simp
qed

subsection \<open>\<open>get_section_values\<close>\<close>

text \<open>
  C2. When both files exist, \<open>get_section_values\<close> lays the custom file's section
  over the default file's section, key by key and whatever the values are: the result
  is the default section updated with the custom section, and a key of the custom
  section has the custom value in it. In particular a key that the custom section maps
  to the empty string is mapped to the empty string in the result, whatever the default
  section gives for it.
\<close>

theorem get_section_values_overlay:
  assumes "find_ini_default sys self n = Some dp"
    and "find_ini_custom sys self n = Some cp"
    and "fst (get_ini_section sys self dp s) = Inr dd"
    and "fst (get_ini_section sys self cp s) = Inr dc"
  shows "fst (get_section_values sys self n s) =
           (if dict_update dd dc = [] then Inl (missing_section n s)
            else Inr (dict_update dd dc)) \<and>
         dict_get (dict_update dd dc) k =
           (case dict_get dc k of Some v \<Rightarrow> Some v | None \<Rightarrow> dict_get dd k) \<and>
         (dict_get dc k = Some [] \<longrightarrow>
            (\<exists>m. fst (get_section_values sys self n s) = Inr m \<and> dict_get m k = Some []))"
proof -
  have dd: "distinct (map fst dd)" and dc: "distinct (map fst dc)"
    using assms(3,4) by (auto dest: get_ini_section_distinct)
  have res: "fst (get_section_values sys self n s) =
      (if dict_update dd dc = [] then Inl (missing_section n s) else Inr (dict_update dd dc))"
    using assms by (simp add: get_section_values_fst dict_update_empty [OF dd])
  have look: "dict_get (dict_update dd dc) k =
      (case dict_get dc k of Some v \<Rightarrow> Some v | None \<Rightarrow> dict_get dd k)"
    by (rule dict_get_dict_update [OF dc])
  have "dict_get dc k = Some [] \<Longrightarrow> dict_update dd dc \<noteq> []"
    using look by (auto simp: dict_get_def)
  with res look show ?thesis by simp
qed

theorem get_section_values_overlay_witness:
  "fst (get_section_values sys_empty_override conf_loader ''app'' ''server'') =
     Inr [(''host'', ''localhost''), (''port'', [])]"
proof -
  have d: "find_ini_default sys_empty_override conf_loader ''app'' = Some ''conf/app.default.ini''"
    by (simp add: sys_empty_override_def example_defs)
  have c: "find_ini_custom sys_empty_override conf_loader ''app'' = Some ''conf/app.ini''"
    by (simp add: sys_empty_override_def example_defs)
  have sd: "fst (get_ini_section sys_empty_override conf_loader ''conf/app.default.ini''
      ''server'') = Inr [(''host'', ''localhost''), (''port'', ''8080'')]"
    by (simp add: sys_empty_override_def example_defs)
  have sc: "fst (get_ini_section sys_empty_override conf_loader ''conf/app.ini'' ''server'')
      = Inr [(''port'', [])]"
    by (simp add: sys_empty_override_def example_defs)
  from get_section_values_overlay [OF d c sd sc, of "''port''"] show ?thesis by simp
qed

subsection \<open>A missing default file\<close>

text \<open>
  C3, as claimed: when the default file does not exist, both methods fail with the
  missing-default error whatever the custom file holds. It is not so: with only
  \<open>app.ini\<close>, holding \<open>[server] port=9090\<close>, \<open>get_value\<close> returns \<open>9090\<close> and
  \<open>get_section_values\<close> returns the section.
\<close>

theorem missing_default_counterexample:
  "find_ini_default sys_custom_only conf_loader ''app'' = None \<and>
   fst (get_value sys_custom_only conf_loader ''app'' ''server'' ''port'') = Inr ''9090'' \<and>
   fst (get_section_values sys_custom_only conf_loader ''app'' ''server'')
     = Inr [(''port'', ''9090'')]"
  by (simp add: sys_custom_only_def example_defs method_defs)

text \<open>
  C3, amended. When the default file does not exist, the missing-default error is raised
  exactly where the custom file gives nothing: \<open>get_value\<close> fails with it when there
  is no custom file or the custom lookup gives \<open>None\<close> or the empty string, and
  returns the custom value otherwise; \<open>get_section_values\<close> fails with it when there
  is no custom file or the custom section is empty or absent, and returns the custom
  section otherwise.
\<close>

theorem missing_default_when_nothing_found:
  assumes "find_ini_default sys self n = None"
  shows "(find_ini_custom sys self n = None \<longrightarrow>
            fst (get_value sys self n s k) = Inl (missing_default_config n) \<and>
            fst (get_section_values sys self n s) = Inl (missing_default_config n)) \<and>
         (find_ini_custom sys self n = Some cp \<and>
          fst (find_ini_value sys self cp s k) = Inr v \<longrightarrow>
            fst (get_value sys self n s k) =
              (case truthy v of None \<Rightarrow> Inl (missing_default_config n) | Some w \<Rightarrow> Inr w)) \<and>
         (find_ini_custom sys self n = Some cp \<and>
          fst (get_ini_section sys self cp s) = Inr d \<longrightarrow>
            fst (get_section_values sys self n s) =
              (if d = [] then Inl (missing_default_config n) else Inr d))"
proof -
  have "dict_update [] d = d" if "fst (get_ini_section sys self cp s) = Inr d"
    using that by (auto dest: get_ini_section_distinct simp: dict_update_empty)
  with assms show ?thesis
    by (auto simp: get_value_fst get_section_values_fst finish_def split: option.splits)
qed

theorem missing_default_when_nothing_found_witness:
  "fst (get_value sys_no_files conf_loader ''app'' ''server'' ''port'')
     = Inl (missing_default_config ''app'') \<and>
   fst (get_section_values sys_no_files conf_loader ''app'' ''server'')
     = Inl (missing_default_config ''app'') \<and>
   fst (get_value sys_custom_only conf_loader ''app'' ''server'' ''host'')
     = Inl (missing_default_config ''app'') \<and>
   fst (get_section_values sys_custom_only conf_loader ''app'' ''paths'')
     = Inl (missing_default_config ''app'')"
proof -
  have d0: "find_ini_default sys_no_files conf_loader ''app'' = None"
    and c0: "find_ini_custom sys_no_files conf_loader ''app'' = None"
    by (simp_all add: sys_no_files_def example_defs)
  have d1: "find_ini_default sys_custom_only conf_loader ''app'' = None"
    and c1: "find_ini_custom sys_custom_only conf_loader ''app'' = Some ''conf/app.ini''"
    and v1: "fst (find_ini_value sys_custom_only conf_loader ''conf/app.ini''
        ''server'' ''host'') = Inr None"
    and s1: "fst (get_ini_section sys_custom_only conf_loader ''conf/app.ini'' ''paths'')
        = Inr []"
    by (simp_all add: sys_custom_only_def example_defs)
  from missing_default_when_nothing_found [OF d0, where s = "''server''" and k = "''port''"] c0
    missing_default_when_nothing_found [OF d1, where cp = "''conf/app.ini''"
      and s = "''server''" and k = "''host''" and v = None]
    missing_default_when_nothing_found [OF d1, where cp = "''conf/app.ini''"
      and s = "''paths''" and d = "[]"]
    c1 v1 s1
  show ?thesis by (simp add: truthy_def)
qed

subsection \<open>Only a default file\<close>

text \<open>
  C5, as claimed: with only a default file, \<open>get_value\<close> returns exactly the value
  the file stores and \<open>get_section_values\<close> returns exactly the file's section. It
  is not so for an empty value or an empty section: with \<open>app.default.ini\<close> holding
  \<open>[server] port=\<close> and an empty \<open>[paths]\<close>, the stored value is the empty string
  and \<open>get_value\<close> raises the missing-key error; the section \<open>paths\<close> is the empty
  dictionary and \<open>get_section_values\<close> raises the missing-section error.
\<close>

theorem default_only_counterexample:
  "find_ini_custom sys_default_empty conf_loader ''app'' = None \<and>
   find_ini_default sys_default_empty conf_loader ''app'' = Some ''conf/app.default.ini'' \<and>
   fst (find_ini_value sys_default_empty conf_loader ''conf/app.default.ini''
     ''server'' ''port'') = Inr (Some []) \<and>
   fst (get_value sys_default_empty conf_loader ''app'' ''server'' ''port'')
     = Inl (missing_key ''app'' ''server'' ''port'') \<and>
   fst (get_ini_section sys_default_empty conf_loader ''conf/app.default.ini'' ''paths'')
     = Inr [] \<and>
   fst (get_section_values sys_default_empty conf_loader ''app'' ''paths'')
     = Inl (missing_section ''app'' ''paths'')"
  by (simp add: sys_default_empty_def example_defs method_defs)

text \<open>
  C5, amended. With only a default file, \<open>get_value\<close> returns exactly the value the
  file stores for \<open>(section, key)\<close> when that value is not the empty string, and
  \<open>get_section_values\<close> returns exactly the file's section when that section is not
  empty.
\<close>

theorem default_only_returns_default:
  assumes "find_ini_custom sys self n = None"
    and "find_ini_default sys self n = Some dp"
    and "resource sys self dp = Inr pd"
  shows "(parser_get pd s k = Inr v \<and> v \<noteq> [] \<longrightarrow>
            fst (get_value sys self n s k) = Inr v) \<and>
         (has_section pd s \<and> section_items pd s = Inr items \<and> dict_of items \<noteq> [] \<longrightarrow>
            fst (get_section_values sys self n s) = Inr (dict_of items))"
  using assms
  by (simp add: get_value_fst find_ini_value_fst finish_def truthy_def
      get_section_values_fst get_ini_section_fst dict_update_empty distinct_dict_of)

theorem default_only_returns_default_witness:
  "fst (get_value sys_default_only conf_loader ''app'' ''server'' ''port'') = Inr ''8080'' \<and>
   fst (get_section_values sys_default_only conf_loader ''app'' ''server'')
     = Inr [(''host'', ''localhost''), (''port'', ''8080'')]"
proof -
  let ?pd = "ini [(''server'', [(''host'', ''localhost''), (''port'', ''8080'')])]"
  have c: "find_ini_custom sys_default_only conf_loader ''app'' = None"
    and d: "find_ini_default sys_default_only conf_loader ''app''
        = Some ''conf/app.default.ini''"
    and r: "resource sys_default_only conf_loader ''conf/app.default.ini'' = Inr ?pd"
    by (simp_all add: sys_default_only_def example_defs)
  have g: "parser_get ?pd ''server'' ''port'' = Inr ''8080''"
    and h: "has_section ?pd ''server''"
    and i: "section_items ?pd ''server'' = Inr [(''host'', ''localhost''), (''port'', ''8080'')]"
    and e: "dict_of [(''host'', ''localhost''), (''port'', ''8080'')]
        = [(''host'', ''localhost''), (''port'', ''8080'')]"
    by (simp_all add: ini_def dict_of_def)
  from default_only_returns_default [OF c d r, where s = "''server''" and k = "''port''"
      and v = "''8080''" and items = "[(''host'', ''localhost''), (''port'', ''8080'')]"]
    g h i e
  show ?thesis by simp
qed

subsection \<open>A default file that exists\<close>

text \<open>
  With the default file located, the two errors in terms of what \<open>_find_ini_value\<close>
  and \<open>_get_ini_section\<close> give on the two paths.
\<close>

lemma errors_by_lookups:
  assumes "find_ini_default sys self n = Some dp"
  shows "(fst (get_value sys self n s k) = Inl (missing_key n s k) \<longleftrightarrow>
            (find_ini_custom sys self n = None \<or>
             (\<exists>cp v. find_ini_custom sys self n = Some cp \<and>
                fst (find_ini_value sys self cp s k) = Inr v \<and> truthy v = None)) \<and>
            (\<exists>v. fst (find_ini_value sys self dp s k) = Inr v \<and> truthy v = None)) \<and>
         (fst (get_section_values sys self n s) = Inl (missing_section n s) \<longleftrightarrow>
            fst (get_ini_section sys self dp s) = Inr [] \<and>
            (find_ini_custom sys self n = None \<or>
             (\<exists>cp. find_ini_custom sys self n = Some cp \<and>
                fst (get_ini_section sys self cp s) = Inr []))) \<and>
         fst (get_value sys self n s k) \<noteq> Inl (missing_default_config n) \<and>
         fst (get_section_values sys self n s) \<noteq> Inl (missing_default_config n)"
proof -
  have lookup_err: "fst (find_ini_value sys self p s k) \<noteq> Inl (missing_key n s k)"
    "fst (find_ini_value sys self p s k) \<noteq> Inl (missing_default_config n)" for p
    by (auto dest: find_ini_value_error simp: missing_key_def missing_default_config_def)
  have section_err: "fst (get_ini_section sys self p s) \<noteq> Inl (missing_section n s)"
    "fst (get_ini_section sys self p s) \<noteq> Inl (missing_default_config n)" for p
    by (auto dest: get_ini_section_error simp: missing_section_def missing_default_config_def)
  have v1: "fst (get_value sys self n s k) = Inl (missing_key n s k) \<longleftrightarrow>
      (find_ini_custom sys self n = None \<or>
       (\<exists>cp v. find_ini_custom sys self n = Some cp \<and>
          fst (find_ini_value sys self cp s k) = Inr v \<and> truthy v = None)) \<and>
      (\<exists>v. fst (find_ini_value sys self dp s k) = Inr v \<and> truthy v = None)"
  proof (cases "find_ini_custom sys self n")
    case None
    with assms lookup_err [of dp] show ?thesis
      by (cases "fst (find_ini_value sys self dp s k)")
        (simp_all add: get_value_fst finish_Some_eq_missing_key)
  next
    case (Some cp)
    show ?thesis
    proof (cases "fst (find_ini_value sys self cp s k)")
      case (Inl e)
      with assms Some lookup_err [of cp] show ?thesis
        by (simp add: get_value_fst)
    next
      case (Inr v1)
      show ?thesis
      proof (cases "truthy v1")
        case tNone: None
        with assms Some Inr lookup_err [of dp] show ?thesis
          by (cases "fst (find_ini_value sys self dp s k)")
            (simp_all add: get_value_fst finish_Some_eq_missing_key)
      next
        case (Some w)
        with assms \<open>find_ini_custom sys self n = Some cp\<close> Inr show ?thesis
          by (simp add: get_value_fst finish_def)
      qed
    qed
  qed
  have v2: "fst (get_value sys self n s k) \<noteq> Inl (missing_default_config n)"
    using assms lookup_err(2)
    by (auto simp: get_value_fst finish_Some_neq_missing_default
        split: option.splits sum.splits)
  have dist: "dict_update [] d = d" if "fst (get_ini_section sys self p s) = Inr d" for p d
    using that by (auto dest: get_ini_section_distinct simp: dict_update_empty)
  have s1: "fst (get_section_values sys self n s) = Inl (missing_section n s) \<longleftrightarrow>
      fst (get_ini_section sys self dp s) = Inr [] \<and>
      (find_ini_custom sys self n = None \<or>
       (\<exists>cp. find_ini_custom sys self n = Some cp \<and>
          fst (get_ini_section sys self cp s) = Inr []))"
  proof (cases "fst (get_ini_section sys self dp s)")
    case (Inl e)
    with assms section_err(1) [of dp] show ?thesis
      by (simp add: get_section_values_fst)
  next
    case (Inr dd)
    note dd = dist [OF Inr]
    show ?thesis
    proof (cases "find_ini_custom sys self n")
      case None
      with assms Inr dd show ?thesis
        by (simp add: get_section_values_fst)
    next
      case (Some cp)
      with assms Inr dd section_err(1) [of cp] show ?thesis
        by (cases "fst (get_ini_section sys self cp s)")
          (auto simp: get_section_values_fst dict_update_eq_Nil)
    qed
  qed
  have s2: "fst (get_section_values sys self n s) \<noteq> Inl (missing_default_config n)"
    using assms section_err(2)
    by (auto simp: get_section_values_fst missing_section_neq_missing_default
        split: option.splits sum.splits if_splits)
  from v1 v2 s1 s2 show ?thesis by blast
qed

lemma dict_of_eq_Nil: "dict_of items = [] \<longleftrightarrow> items = []"
  by (simp add: dict_of_def dict_update_eq_Nil)

lemma find_ini_value_nothing_iff:
  "(\<exists>v. fst (find_ini_value sys self p s k) = Inr v \<and> truthy v = None) \<longleftrightarrow>
   (\<exists>parser. resource sys self p = Inr parser \<and>
      (parser_get parser s k = Inr [] \<or> parser_get parser s k = Inl NoOptionError \<or>
       parser_get parser s k = Inl NoSectionError))"
  by (auto simp: find_ini_value_fst truthy_None_iff
      split: sum.splits library_error.splits)

lemma get_ini_section_nothing_iff:
  "fst (get_ini_section sys self p s) = Inr [] \<longleftrightarrow>
   (\<exists>parser. resource sys self p = Inr parser \<and>
      (has_section parser s \<longrightarrow> section_items parser s = Inr []))"
  by (auto simp: get_ini_section_fst dict_of_eq_Nil split: sum.splits)

text \<open>
  C6. When the default file exists, \<open>get_value\<close> fails with the missing-key error
  exactly when neither layer gives a non-empty value for \<open>(section, key)\<close>: there is
  no custom file, or its parser gives the empty string, \<open>NoOptionError\<close> or
  \<open>NoSectionError\<close> for the key, and the default file's parser gives one of these
  three too. \<open>get_section_values\<close> fails with the missing-section error exactly when
  the section is absent or empty in both layers: the default file's parser does not
  have the section or has no item in it, and there is no custom file or its parser does
  not have the section or has no item in it. Neither method raises the missing-default
  error.
\<close>

theorem default_present_errors:
  assumes "find_ini_default sys self n = Some dp"
  shows "(fst (get_value sys self n s k) = Inl (missing_key n s k) \<longleftrightarrow>
            (find_ini_custom sys self n = None \<or>
             (\<exists>cp pc. find_ini_custom sys self n = Some cp \<and>
                resource sys self cp = Inr pc \<and>
                (parser_get pc s k = Inr [] \<or> parser_get pc s k = Inl NoOptionError \<or>
                 parser_get pc s k = Inl NoSectionError))) \<and>
            (\<exists>pd. resource sys self dp = Inr pd \<and>
               (parser_get pd s k = Inr [] \<or> parser_get pd s k = Inl NoOptionError \<or>
                parser_get pd s k = Inl NoSectionError))) \<and>
         (fst (get_section_values sys self n s) = Inl (missing_section n s) \<longleftrightarrow>
            (\<exists>pd. resource sys self dp = Inr pd \<and>
               (has_section pd s \<longrightarrow> section_items pd s = Inr [])) \<and>
            (find_ini_custom sys self n = None \<or>
             (\<exists>cp pc. find_ini_custom sys self n = Some cp \<and>
                resource sys self cp = Inr pc \<and>
                (has_section pc s \<longrightarrow> section_items pc s = Inr [])))) \<and>
         fst (get_value sys self n s k) \<noteq> Inl (missing_default_config n) \<and>
         fst (get_section_values sys self n s) \<noteq> Inl (missing_default_config n)"
proof -
  note base = errors_by_lookups [OF assms, of s k]
  have custom_value:
    "(\<exists>cp v. find_ini_custom sys self n = Some cp \<and>
        fst (find_ini_value sys self cp s k) = Inr v \<and> truthy v = None) \<longleftrightarrow>
     (\<exists>cp pc. find_ini_custom sys self n = Some cp \<and> resource sys self cp = Inr pc \<and>
        (parser_get pc s k = Inr [] \<or> parser_get pc s k = Inl NoOptionError \<or>
         parser_get pc s k = Inl NoSectionError))"
    using find_ini_value_nothing_iff [of sys self _ s k] by blast
  have custom_section:
    "(\<exists>cp. find_ini_custom sys self n = Some cp \<and>
        fst (get_ini_section sys self cp s) = Inr []) \<longleftrightarrow>
     (\<exists>cp pc. find_ini_custom sys self n = Some cp \<and> resource sys self cp = Inr pc \<and>
        (has_section pc s \<longrightarrow> section_items pc s = Inr []))"
    using get_ini_section_nothing_iff [of sys self _ s] by blast
  from base show ?thesis
    unfolding custom_value custom_section
      find_ini_value_nothing_iff [of sys self dp s k]
      get_ini_section_nothing_iff [of sys self dp s]
    by blast
qed

theorem default_present_errors_witness:
  "fst (get_value sys_empty_override conf_loader ''app'' ''server'' ''user'')
     = Inl (missing_key ''app'' ''server'' ''user'') \<and>
   fst (get_value sys_empty_override conf_loader ''app'' ''server'' ''port'')
     \<noteq> Inl (missing_key ''app'' ''server'' ''port'') \<and>
   fst (get_section_values sys_empty_override conf_loader ''app'' ''paths'')
     = Inl (missing_section ''app'' ''paths'') \<and>
   fst (get_section_values sys_empty_override conf_loader ''app'' ''server'')
     \<noteq> Inl (missing_section ''app'' ''server'') \<and>
   fst (get_value sys_default_empty conf_loader ''app'' ''server'' ''port'')
     = Inl (missing_key ''app'' ''server'' ''port'') \<and>
   fst (get_section_values sys_default_empty conf_loader ''app'' ''paths'')
     = Inl (missing_section ''app'' ''paths'') \<and>
   fst (get_section_values sys_default_empty conf_loader ''app'' ''server'')
     \<noteq> Inl (missing_section ''app'' ''server'')"
proof -
  let ?pd = "ini [(''server'', [(''host'', ''localhost''), (''port'', ''8080'')])]"
  let ?pc = "ini [(''server'', [(''port'', [])])]"
  let ?pe = "ini [(''server'', [(''port'', [])]), (''paths'', [])]"
  have d: "find_ini_default sys_empty_override conf_loader ''app''
      = Some ''conf/app.default.ini''"
    and c: "find_ini_custom sys_empty_override conf_loader ''app'' = Some ''conf/app.ini''"
    and rd: "resource sys_empty_override conf_loader ''conf/app.default.ini'' = Inr ?pd"
    and rc: "resource sys_empty_override conf_loader ''conf/app.ini'' = Inr ?pc"
    by (simp_all add: sys_empty_override_def example_defs)
  have pd: "parser_get ?pd ''server'' ''user'' = Inl NoOptionError"
    "parser_get ?pd ''server'' ''port'' = Inr ''8080''"
    "\<not> has_section ?pd ''paths''" "has_section ?pd ''server''"
    "section_items ?pd ''server'' = Inr [(''host'', ''localhost''), (''port'', ''8080'')]"
    by (simp_all add: ini_def)
  have pc: "parser_get ?pc ''server'' ''user'' = Inl NoOptionError"
    "parser_get ?pc ''server'' ''port'' = Inr []"
    "\<not> has_section ?pc ''paths''" "has_section ?pc ''server''"
    "section_items ?pc ''server'' = Inr [(''port'', [])]"
    by (simp_all add: ini_def)
  have d': "find_ini_default sys_default_empty conf_loader ''app''
      = Some ''conf/app.default.ini''"
    and c': "find_ini_custom sys_default_empty conf_loader ''app'' = None"
    and re: "resource sys_default_empty conf_loader ''conf/app.default.ini'' = Inr ?pe"
    by (simp_all add: sys_default_empty_def example_defs)
  have pe: "parser_get ?pe ''server'' ''port'' = Inr []"
    "has_section ?pe ''paths''" "section_items ?pe ''paths'' = Inr []"
    "has_section ?pe ''server''" "section_items ?pe ''server'' = Inr [(''port'', [])]"
    by (simp_all add: ini_def)
  from default_present_errors [OF d, where s = "''server''" and k = "''user''"] c rd rc pd pc
  have a1: "fst (get_value sys_empty_override conf_loader ''app'' ''server'' ''user'')
      = Inl (missing_key ''app'' ''server'' ''user'')"
    by simp
  from default_present_errors [OF d, where s = "''server''" and k = "''port''"] c rd rc pd pc
  have a2: "fst (get_value sys_empty_override conf_loader ''app'' ''server'' ''port'')
      \<noteq> Inl (missing_key ''app'' ''server'' ''port'')"
    and a4: "fst (get_section_values sys_empty_override conf_loader ''app'' ''server'')
      \<noteq> Inl (missing_section ''app'' ''server'')"
    by simp_all
  from default_present_errors [OF d, where s = "''paths''"] c rd rc pd pc
  have a3: "fst (get_section_values sys_empty_override conf_loader ''app'' ''paths'')
      = Inl (missing_section ''app'' ''paths'')"
    by simp
  from default_present_errors [OF d', where s = "''server''" and k = "''port''"] c' re pe
  have b1: "fst (get_value sys_default_empty conf_loader ''app'' ''server'' ''port'')
      = Inl (missing_key ''app'' ''server'' ''port'')"
    and b3: "fst (get_section_values sys_default_empty conf_loader ''app'' ''server'')
      \<noteq> Inl (missing_section ''app'' ''server'')"
    by simp_all
  from default_present_errors [OF d', where s = "''paths''"] c' re pe
  have b2: "fst (get_section_values sys_default_empty conf_loader ''app'' ''paths'')
      = Inl (missing_section ''app'' ''paths'')"
    by simp
  from a1 a2 a3 a4 b1 b2 b3 show ?thesis by simp
qed

subsection \<open>Repeated calls\<close>

text \<open>
  A path that has been read is not read again: once \<open>_get_parser\<close> has returned a
  parser for a path, it returns that parser for the path whatever the files have become,
  and leaves the loader as it is.
\<close>

lemma get_parser_reads_once:
  assumes "get_parser sys self p = (Inr parser, self')"
  shows "get_parser sys' self' p = (Inr parser, self')"
  by (rule get_parser_reuse [OF get_parser_cached [OF assms]])

text \<open>
  C7. Against an unchanged file system, the result of a call of \<open>get_value\<close> or of
  \<open>get_section_values\<close> does not depend on the calls made on the loader before it:
  after any sequence of calls the result is the one the call gives on the loader as it
  was. In particular a call repeated at once, with the same arguments, gives the same
  result again. The parser cache is therefore not observable through the results.
\<close>

theorem repeated_calls_same_results:
  "fst (perform sys (perform_all sys self cs) c) = fst (perform sys self c) \<and>
   fst (get_value sys (snd (get_value sys self n s k)) n s k)
     = fst (get_value sys self n s k) \<and>
   fst (get_section_values sys (snd (get_section_values sys self n s)) n s)
     = fst (get_section_values sys self n s)"
  using perform_cong [OF perform_all_same, of sys self cs c]
    get_value_cong [OF get_value_same, of sys self n s k n s k]
    get_section_values_cong [OF get_section_values_same, of sys self n s n s]
  by simp

end
